theory Spec2Isabelle
  imports Complex_Main "HOL-Library.Sublist"
begin

section \<open>Python values used by the learning coach\<close>

subsection \<open>Strings and lists\<close>

text \<open>
  A Python \<open>str\<close> is a sequence of Unicode code points; slicing, \<open>strip\<close> and \<open>split\<close>
  count and compare code points, so a string is modelled as a list of code point numbers.
  String literals of the source are written with \<open>lit\<close>.
\<close>

type_synonym pystr = "nat list"

definition lit :: "string \<Rightarrow> pystr" where
  "lit s = map of_char s"

text \<open>
  The characters \<open>str.strip()\<close> removes when called without an argument: the code points
  for which CPython's \<open>Py_UNICODE_ISSPACE\<close> holds.
\<close>

definition py_isspace :: "nat \<Rightarrow> bool" where
  "py_isspace c \<longleftrightarrow>
     (9 \<le> c \<and> c \<le> 13) \<or> (28 \<le> c \<and> c \<le> 32) \<or> c = 133 \<or> c = 160 \<or> c = 5760 \<or>
     (8192 \<le> c \<and> c \<le> 8202) \<or> c = 8232 \<or> c = 8233 \<or> c = 8239 \<or> c = 8287 \<or> c = 12288"

definition py_strip :: "pystr \<Rightarrow> pystr" where
  "py_strip s = rev (dropWhile py_isspace (rev (dropWhile py_isspace s)))"

text \<open>\<open>sub in s\<close> on strings: \<open>sub\<close> occurs in \<open>s\<close> as a contiguous block.\<close>

definition py_in :: "'a list \<Rightarrow> 'a list \<Rightarrow> bool" where
  "py_in sub s = sublist sub s"

text \<open>
  \<open>find_sub sep s\<close> cuts \<open>s\<close> at the leftmost occurrence of \<open>sep\<close>: the text before it
  and the text after it.
\<close>

fun find_sub :: "'a list \<Rightarrow> 'a list \<Rightarrow> ('a list \<times> 'a list) option" where
  "find_sub sep [] = (if sep = [] then Some ([], []) else None)"
| "find_sub sep (x # xs) =
     (if prefix sep (x # xs) then Some ([], drop (length sep) (x # xs))
      else map_option (\<lambda>(a, b). (x # a, b)) (find_sub sep xs))"

lemma find_sub_shorter:
  "find_sub sep s = Some (a, b) \<Longrightarrow> sep \<noteq> [] \<Longrightarrow> length b < length s"
  by (induction s arbitrary: a b) (auto split: if_splits)

text \<open>
  \<open>s.split(sep)\<close>: the pieces between the occurrences of \<open>sep\<close>, found from left to right
  without overlap. Python raises \<open>ValueError\<close> for an empty separator; the source only
  splits at a literal, and the model returns the string whole in that case.
\<close>

function py_split :: "'a list \<Rightarrow> 'a list \<Rightarrow> 'a list list" where
  "py_split sep s =
     (if sep = [] then [s]
      else (case find_sub sep s of
              None \<Rightarrow> [s]
            | Some (a, b) \<Rightarrow> a # py_split sep b))"
  by pat_completeness auto
termination
  by (relation "measure (\<lambda>(sep, s). length s)") (auto dest: find_sub_shorter)

declare py_split.simps [simp del]

text \<open>\<open>s[:n]\<close> for a non-negative literal \<open>n\<close>.\<close>

definition py_prefix :: "nat \<Rightarrow> 'a list \<Rightarrow> 'a list" where
  "py_prefix n s = take n s"

text \<open>
  \<open>xs[:n]\<close> for an integer \<open>n\<close> that may be negative: a negative bound counts from the
  end of the list.
\<close>

definition py_slice_to :: "int \<Rightarrow> 'a list \<Rightarrow> 'a list" where
  "py_slice_to n xs =
     (if 0 \<le> n then take (nat n) xs else take (nat (int (length xs) + n)) xs)"

text \<open>\<open>sep.join(xs)\<close>.\<close>

fun py_join :: "'a list \<Rightarrow> 'a list list \<Rightarrow> 'a list" where
  "py_join sep [] = []"
| "py_join sep [x] = x"
| "py_join sep (x # y # ys) = x @ sep @ py_join sep (y # ys)"

text \<open>\<open>s.replace(old, new)\<close> for a non-empty \<open>old\<close>: the pieces between the occurrences
  of \<open>old\<close>, joined again by \<open>new\<close>.\<close>

definition py_replace :: "'a list \<Rightarrow> 'a list \<Rightarrow> 'a list \<Rightarrow> 'a list" where
  "py_replace old new s = py_join new (py_split old s)"

subsection \<open>Errors\<close>

text \<open>
  The exceptions the modelled code can meet. \<open>ServiceError\<close> stands for whatever an
  external service call raises (the store, the generation service, the embedding model).
\<close>

datatype error = KeyError pystr | TypeError | ValueError pystr | ServiceError pystr

subsection \<open>Floating point numbers\<close>

text \<open>
  Scores are Python floats. The model computes with real numbers: decimal literals are
  exact and \<open>+\<close>, \<open>*\<close> do not round. What \<open>float(s)\<close> may return is a number, an
  infinity or a NaN.
\<close>

datatype pyfloat = Finite real | PosInf | NegInf | NaN

text \<open>
  \<open>max(0.0, min(1.0, score))\<close>. The built-in \<open>min(a, b)\<close> keeps \<open>a\<close> unless \<open>b < a\<close>,
  and \<open>max(a, b)\<close> keeps \<open>a\<close> unless \<open>b > a\<close>; every comparison with a NaN is false, so
  \<open>min(1.0, nan)\<close> is \<open>1.0\<close>.
\<close>

fun clamp_unit :: "pyfloat \<Rightarrow> real" where
  "clamp_unit (Finite x) = max 0 (min 1 x)"
| "clamp_unit PosInf = 1"
| "clamp_unit NegInf = 0"
| "clamp_unit NaN = 1"

text \<open>
  \<open>round(x, ndigits)\<close> on a float: the nearest multiple of \<open>10 ** -ndigits\<close>, a tie
  going to the even neighbour.
\<close>

definition py_round :: "real \<Rightarrow> nat \<Rightarrow> real" where
  "py_round x ndigits =
     (let y = x * 10 ^ ndigits;
          f = \<lfloor>y\<rfloor>;
          d = y - of_int f;
          n = (if d < 1 / 2 then f else if 1 / 2 < d then f + 1
               else if even f then f else f + 1)
      in of_int n / 10 ^ ndigits)"

subsection \<open>Dates\<close>

text \<open>
  A \<open>datetime\<close> is naive (a wall-clock reading, here in microseconds) or aware (a
  wall-clock reading and a UTC offset). \<open>datetime.utcnow()\<close> is always naive.
  Subtracting a naive and an aware value raises \<open>TypeError\<close>; \<open>timedelta.days\<close>
  rounds towards minus infinity.
\<close>

datatype datetime = Naive int | Aware int int

fun datetime_sub :: "datetime \<Rightarrow> datetime \<Rightarrow> error + int" where
  "datetime_sub (Naive a) (Naive b) = Inr (a - b)"
| "datetime_sub (Aware a oa) (Aware b ob) = Inr ((a - oa) - (b - ob))"
| "datetime_sub (Naive a) (Aware b ob) = Inl TypeError"
| "datetime_sub (Aware a oa) (Naive b) = Inl TypeError"

definition timedelta_days :: "int \<Rightarrow> int" where
  "timedelta_days delta = delta div 86400000000"

section \<open>Data of the digest pipeline\<close>

type_synonym pydict = "(pystr \<times> pystr) list"

text \<open>
  A row of \<open>learning_content\<close> as the similarity search returns it. A field is \<open>None\<close>
  when the key is absent from the row.
\<close>

record item =
  item_id :: "int option"
  title :: "pystr option"
  content :: "pystr option"
  source_url :: "pystr option"
  similarity :: "real option"
  metadata :: "pydict option"

record user_progress =
  row_week :: int
  row_topics :: "pystr list"
  row_goals :: "pystr option"

record user_context =
  current_week :: int
  current_topics :: "pystr list"
  learning_goals :: pystr

record insight =
  insight_text :: pystr
  content_id :: "int option"
  insight_title :: pystr
  insight_source_url :: pystr
  relevance_score :: real
  similarity_score :: real
  insight_metadata :: pydict

text \<open>
  The digest dictionary. The keys \<open>week\<close>, \<open>topics\<close> and \<open>total_insights\<close> are absent
  from the digest returned when nothing was retrieved.
\<close>

record digest =
  date :: int
  week :: "int option"
  topics :: "pystr list option"
  summary :: pystr
  insights :: "insight list"
  total_insights :: "nat option"

datatype tool_result = Success digest | Failure error

subsection \<open>External services\<close>

text \<open>
  A request to the generation service, by the values its prompt is built from: the
  insight prompt (week, topics, goals, the first 1000 characters of the content), the
  relevance prompt (topics, the first 500 characters of the content) and the summary
  prompt (week, topics, number of insights).
\<close>

datatype request =
    InsightRequest int "pystr list" pystr pystr
  | ScoreRequest "pystr list" pystr
  | SummaryRequest int "pystr list" nat

text \<open>
  The calls that leave the process, in the order they are made: a similarity search
  (query embedding, \<open>match_count\<close>, \<open>match_threshold\<close>), a chat completion, and the
  insertion of a daily insight (text, content id, relevance score, week).
\<close>

datatype event =
    Search "real list" int real
  | Chat request
  | Store pystr "int option" real int

text \<open>
  The collaborators of the pipeline and the built-ins whose code is not part of the
  repository. A service answers from the calls made before it and its arguments.
\<close>

record services =
  get_user_progress :: "error + user_progress option"
  encode :: "pystr \<Rightarrow> error + real list"
  search_content_by_embedding :: "event list \<Rightarrow> real list \<Rightarrow> int \<Rightarrow> real \<Rightarrow> error + item list"
  chat_completion :: "event list \<Rightarrow> request \<Rightarrow> error + pystr"
  store_daily_insight :: "event list \<Rightarrow> pystr \<Rightarrow> int option \<Rightarrow> real \<Rightarrow> int \<Rightarrow> error + unit"
  float_of_str :: "pystr \<Rightarrow> pyfloat option"
  fromisoformat :: "pystr \<Rightarrow> datetime option"
  utcnow :: "event list \<Rightarrow> int"

section \<open>The generation client (\<open>utils/groq_client.py\<close>)\<close>

definition think_open :: pystr where
  "think_open = lit ''<think>''"

definition think_close :: pystr where
  "think_close = lit ''</think>''"

definition msg_only_thinking :: pystr where
  "msg_only_thinking = lit ''Error: Model only generated thinking process, no insight produced.''"

definition msg_incomplete :: pystr where
  "msg_incomplete = lit ''Error: Incomplete response - thinking process not finished.''"

text \<open>\<open>GroqClient._extract_final_output\<close>.\<close>

definition extract_final_output :: "pystr \<Rightarrow> pystr" where
  "extract_final_output text =
     (if py_in think_close text then
        (let parts = py_split think_close text;
             final_output = py_strip (last parts)
         in if final_output \<noteq> [] then final_output else msg_only_thinking)
      else if py_in think_open text then msg_incomplete
      else py_strip text)"

text \<open>
  \<open>GroqClient.generate_insight\<close>. A failing completion call raises; the call is logged
  either way.
\<close>

definition generate_insight ::
  "services \<Rightarrow> event list \<Rightarrow> pystr \<Rightarrow> user_context \<Rightarrow> (error + pystr) \<times> event list" where
  "generate_insight sv tr body ctx =
     (let req = InsightRequest (current_week ctx) (current_topics ctx) (learning_goals ctx)
                  (py_prefix 1000 body)
      in case chat_completion sv tr req of
           Inl e \<Rightarrow> (Inl e, tr @ [Chat req])
         | Inr reply \<Rightarrow> (Inr (extract_final_output (py_strip reply)), tr @ [Chat req]))"

text \<open>\<open>GroqClient.generate_daily_digest_summary\<close>.\<close>

definition generate_daily_digest_summary ::
  "services \<Rightarrow> event list \<Rightarrow> pystr list \<Rightarrow> user_context \<Rightarrow> (error + pystr) \<times> event list" where
  "generate_daily_digest_summary sv tr texts ctx =
     (let req = SummaryRequest (current_week ctx) (current_topics ctx) (length texts)
      in case chat_completion sv tr req of
           Inl e \<Rightarrow> (Inl e, tr @ [Chat req])
         | Inr reply \<Rightarrow> (Inr (py_strip reply), tr @ [Chat req]))"

text \<open>
  \<open>GroqClient.score_content_relevance\<close>. Only the \<open>ValueError\<close> of \<open>float\<close> is caught;
  \<open>float_of_str\<close> returns \<open>None\<close> where \<open>float\<close> raises it.
\<close>

definition score_content_relevance ::
  "services \<Rightarrow> event list \<Rightarrow> pystr \<Rightarrow> pystr list \<Rightarrow> (error + real) \<times> event list" where
  "score_content_relevance sv tr body user_topics =
     (let req = ScoreRequest user_topics (py_prefix 500 body)
      in case chat_completion sv tr req of
           Inl e \<Rightarrow> (Inl e, tr @ [Chat req])
         | Inr reply \<Rightarrow>
             (case float_of_str sv (py_strip reply) of
                Some score \<Rightarrow> (Inr (clamp_unit score), tr @ [Chat req])
              | None \<Rightarrow> (Inr 0.5, tr @ [Chat req])))"

section \<open>The digest generator (\<open>rag/digest_generator.py\<close>)\<close>

text \<open>\<open>d.get(key, default)\<close> on a dictionary of strings.\<close>

definition dict_get :: "pydict \<Rightarrow> pystr \<Rightarrow> pystr \<Rightarrow> pystr" where
  "dict_get d k dflt = (case map_of d k of None \<Rightarrow> dflt | Some v \<Rightarrow> v)"

text \<open>\<open>item.get("metadata", {}).get("published", "")\<close>.\<close>

definition item_published :: "item \<Rightarrow> pystr" where
  "item_published it =
     dict_get (case metadata it of None \<Rightarrow> [] | Some m \<Rightarrow> m) (lit ''published'') []"

text \<open>
  \<open>DigestGenerator._calculate_freshness\<close>, with the clock reading \<open>now\<close> of
  \<open>datetime.utcnow()\<close>. Everything after the emptiness test runs under
  \<open>except Exception\<close>.
\<close>

definition calculate_freshness :: "(pystr \<Rightarrow> datetime option) \<Rightarrow> int \<Rightarrow> pystr \<Rightarrow> real" where
  "calculate_freshness parse now published_date =
     (if published_date = [] then 0.5
      else (case parse (py_replace (lit ''Z'') (lit ''+00:00'') published_date) of
              None \<Rightarrow> 0.5
            | Some pub_date \<Rightarrow>
                (case datetime_sub (Naive now) pub_date of
                   Inl e \<Rightarrow> 0.5
                 | Inr delta \<Rightarrow>
                     (let days_old = timedelta_days delta
                      in if days_old \<le> 0 then 1.0
                         else if days_old \<le> 7 then 0.9
                         else if days_old \<le> 30 then 0.7
                         else if days_old \<le> 90 then 0.4
                         else 0.2))))"

text \<open>\<open>DigestGenerator._calculate_relevance_score\<close>.\<close>

definition calculate_relevance_score ::
  "services \<Rightarrow> event list \<Rightarrow> item \<Rightarrow> user_context \<Rightarrow> (error + real) \<times> event list" where
  "calculate_relevance_score sv tr it ctx =
     (let similarity_score = (case similarity it of None \<Rightarrow> 0.5 | Some x \<Rightarrow> x)
      in case content it of
           None \<Rightarrow> (Inl (KeyError (lit ''content'')), tr)
         | Some body \<Rightarrow>
             (case score_content_relevance sv tr (py_prefix 500 body) (current_topics ctx) of
                (Inl e, tr') \<Rightarrow> (Inl e, tr')
              | (Inr topic_relevance, tr') \<Rightarrow>
                  (let freshness_score =
                         calculate_freshness (fromisoformat sv) (utcnow sv tr') (item_published it)
                   in (Inr (py_round (0.4 * similarity_score + 0.4 * topic_relevance +
                                      0.2 * freshness_score) 3), tr'))))"

text \<open>
  The body of the \<open>try\<close> in the loop of \<open>generate_insights_from_content\<close>: the insight of
  one candidate, or the exception that makes the loop skip it.
\<close>

definition insight_of_item ::
  "services \<Rightarrow> user_context \<Rightarrow> event list \<Rightarrow> item \<Rightarrow> (error + insight) \<times> event list" where
  "insight_of_item sv ctx tr it =
     (case content it of
        None \<Rightarrow> (Inl (KeyError (lit ''content'')), tr)
      | Some body \<Rightarrow>
          (case generate_insight sv tr body ctx of
             (Inl e, tr1) \<Rightarrow> (Inl e, tr1)
           | (Inr insight_text', tr1) \<Rightarrow>
               (case calculate_relevance_score sv tr1 it ctx of
                  (Inl e, tr2) \<Rightarrow> (Inl e, tr2)
                | (Inr relevance, tr2) \<Rightarrow>
                    (Inr \<lparr> insight_text = insight_text',
                           content_id = item_id it,
                           insight_title = (case title it of None \<Rightarrow> [] | Some t \<Rightarrow> t),
                           insight_source_url = (case source_url it of None \<Rightarrow> [] | Some u \<Rightarrow> u),
                           relevance_score = relevance,
                           similarity_score = (case similarity it of None \<Rightarrow> 0.0 | Some x \<Rightarrow> x),
                           insight_metadata = (case metadata it of None \<Rightarrow> [] | Some m \<Rightarrow> m) \<rparr>,
                     tr2))))"

text \<open>The loop: a candidate whose body raises is logged and skipped.\<close>

fun insights_loop ::
  "services \<Rightarrow> user_context \<Rightarrow> event list \<Rightarrow> item list \<Rightarrow> insight list \<times> event list" where
  "insights_loop sv ctx tr [] = ([], tr)"
| "insights_loop sv ctx tr (it # its) =
     (case insight_of_item sv ctx tr it of
        (Inl e, tr') \<Rightarrow> insights_loop sv ctx tr' its
      | (Inr ins, tr') \<Rightarrow>
          (case insights_loop sv ctx tr' its of (rest, tr'') \<Rightarrow> (ins # rest, tr'')))"

text \<open>
  What the body of the \<open>try\<close> gives for each candidate of the loop, in the order
  of the candidates: an insight, or the exception that was logged.
\<close>

fun item_outcomes ::
  "services \<Rightarrow> user_context \<Rightarrow> event list \<Rightarrow> item list \<Rightarrow> (error + insight) list" where
  "item_outcomes sv ctx tr [] = []"
| "item_outcomes sv ctx tr (it # its) =
     (case insight_of_item sv ctx tr it of (r, tr') \<Rightarrow> r # item_outcomes sv ctx tr' its)"

text \<open>
  \<open>xs.sort(key=k, reverse=True)\<close>: the list is reversed, sorted by a stable sort and
  reversed again.
\<close>

definition py_sort_reverse :: "('a \<Rightarrow> 'k::linorder) \<Rightarrow> 'a list \<Rightarrow> 'a list" where
  "py_sort_reverse k xs = rev (sort_key k (rev xs))"

text \<open>\<open>DigestGenerator.generate_insights_from_content\<close>.\<close>

definition generate_insights_from_content ::
  "services \<Rightarrow> event list \<Rightarrow> item list \<Rightarrow> user_context \<Rightarrow> int \<Rightarrow> insight list \<times> event list" where
  "generate_insights_from_content sv tr content_items ctx max_insights =
     (case insights_loop sv ctx tr (py_slice_to max_insights content_items) of
        (found, tr') \<Rightarrow> (py_sort_reverse relevance_score found, tr'))"

text \<open>\<open>DigestGenerator.retrieve_relevant_content\<close>.\<close>

definition retrieve_relevant_content ::
  "services \<Rightarrow> event list \<Rightarrow> user_context \<Rightarrow> int \<Rightarrow> (error + item list) \<times> event list" where
  "retrieve_relevant_content sv tr ctx top_k =
     (let query_text = py_join (lit '' '') (current_topics ctx)
      in if query_text = [] then (Inr [], tr)
         else (case encode sv query_text of
                 Inl e \<Rightarrow> (Inl e, tr)
               | Inr query_embedding \<Rightarrow>
                   (case search_content_by_embedding sv tr query_embedding top_k 0.25 of
                      Inl e \<Rightarrow> (Inl e, tr @ [Search query_embedding top_k 0.25])
                    | Inr relevant_content \<Rightarrow>
                        if length relevant_content = 0 then
                          (case search_content_by_embedding sv
                                  (tr @ [Search query_embedding top_k 0.25])
                                  query_embedding top_k 0.15 of
                             Inl e \<Rightarrow>
                               (Inl e, tr @ [Search query_embedding top_k 0.25,
                                             Search query_embedding top_k 0.15])
                           | Inr relaxed \<Rightarrow>
                               (Inr relaxed, tr @ [Search query_embedding top_k 0.25,
                                                   Search query_embedding top_k 0.15]))
                        else (Inr relevant_content, tr @ [Search query_embedding top_k 0.25]))))"

text \<open>The loop that stores the insights; the first failing insertion raises.\<close>

fun store_insights ::
  "services \<Rightarrow> user_context \<Rightarrow> event list \<Rightarrow> insight list \<Rightarrow> (error + unit) \<times> event list" where
  "store_insights sv ctx tr [] = (Inr (), tr)"
| "store_insights sv ctx tr (i # is) =
     (case store_daily_insight sv tr (insight_text i) (content_id i) (relevance_score i)
             (current_week ctx) of
        Inl e \<Rightarrow>
          (Inl e, tr @ [Store (insight_text i) (content_id i) (relevance_score i)
                          (current_week ctx)])
      | Inr u \<Rightarrow>
          store_insights sv ctx
            (tr @ [Store (insight_text i) (content_id i) (relevance_score i) (current_week ctx)])
            is)"

definition msg_no_progress :: pystr where
  "msg_no_progress =
     lit ''No progress found. Please set your learning progress first using update_progress.''"

definition msg_no_content :: pystr where
  "msg_no_content = lit ''No relevant content found for your topics today.''"

text \<open>
  The \<open>user_context\<close> dictionary \<open>generate_daily_digest\<close> builds from the stored
  progress; \<open>learning_goals\<close> defaults to the empty string.
\<close>

definition user_context_of :: "user_progress \<Rightarrow> user_context" where
  "user_context_of progress =
     \<lparr> current_week = row_week progress,
       current_topics = row_topics progress,
       learning_goals = (case row_goals progress of None \<Rightarrow> [] | Some g \<Rightarrow> g) \<rparr>"

text \<open>\<open>DigestGenerator.generate_daily_digest\<close>.\<close>

definition generate_daily_digest ::
  "services \<Rightarrow> event list \<Rightarrow> int \<Rightarrow> (error + digest) \<times> event list" where
  "generate_daily_digest sv tr num_insights =
     (case get_user_progress sv of
        Inl e \<Rightarrow> (Inl e, tr)
      | Inr None \<Rightarrow> (Inl (ValueError msg_no_progress), tr)
      | Inr (Some progress) \<Rightarrow>
          (let ctx = user_context_of progress
           in case retrieve_relevant_content sv tr ctx (num_insights * 2) of
                (Inl e, tr1) \<Rightarrow> (Inl e, tr1)
              | (Inr relevant_content, tr1) \<Rightarrow>
                  if relevant_content = [] then
                    (Inr \<lparr> date = utcnow sv tr1, week = None, topics = None,
                           summary = msg_no_content, insights = [], total_insights = None \<rparr>,
                     tr1)
                  else
                    (case generate_insights_from_content sv tr1 relevant_content ctx
                            num_insights of
                       (found, tr2) \<Rightarrow>
                         (case store_insights sv ctx tr2 found of
                            (Inl e, tr3) \<Rightarrow> (Inl e, tr3)
                          | (Inr u, tr3) \<Rightarrow>
                              (case generate_daily_digest_summary sv tr3
                                      (map insight_text found) ctx of
                                 (Inl e, tr4) \<Rightarrow> (Inl e, tr4)
                               | (Inr text, tr4) \<Rightarrow>
                                   (Inr \<lparr> date = utcnow sv tr4,
                                          week = Some (current_week ctx),
                                          topics = Some (current_topics ctx),
                                          summary = text,
                                          insights = found,
                                          total_insights = Some (length found) \<rparr>,
                                    tr4))))))"

section \<open>The tool (\<open>server.py\<close>)\<close>

text \<open>The tool \<open>generate_daily_digest\<close>: every exception becomes a failure result.\<close>

definition tool_generate_daily_digest ::
  "services \<Rightarrow> event list \<Rightarrow> int \<Rightarrow> tool_result \<times> event list" where
  "tool_generate_daily_digest sv tr num_insights =
     (case generate_daily_digest sv tr num_insights of
        (Inl e, tr') \<Rightarrow> (Failure e, tr')
      | (Inr d, tr') \<Rightarrow> (Success d, tr'))"

section \<open>A sample run\<close>

text \<open>
  Two stored documents, a learner and services that answer with fixed replies; the
  concrete inputs at which the theorems below are evaluated. The first document has a
  timestamp without a zone, the second one a timestamp in UTC.
\<close>

definition sample_item :: item where
  "sample_item =
     \<lparr> item_id = Some 1, title = Some (lit ''Attention''),
       content = Some (lit ''Attention is all you need''),
       source_url = Some (lit ''http://a''), similarity = Some 0.6,
       metadata = Some [(lit ''published'', lit ''2024-01-01T00:00:00'')] \<rparr>"

definition sample_item_utc :: item where
  "sample_item_utc =
     \<lparr> item_id = Some 2, title = Some (lit ''Transformers''),
       content = Some (lit ''Transformers''),
       source_url = Some (lit ''http://b''), similarity = Some 0.9,
       metadata = Some [(lit ''published'', lit ''2024-01-01T00:00:00Z'')] \<rparr>"

definition sample_context :: user_context where
  "sample_context =
     \<lparr> current_week = 3, current_topics = [lit ''transformers'', lit ''attention''],
       learning_goals = [] \<rparr>"

definition sample_services :: services where
  "sample_services =
     \<lparr> get_user_progress =
         Inr (Some \<lparr> row_week = 3, row_topics = [lit ''transformers'', lit ''attention''],
                     row_goals = None \<rparr>),
       encode = (\<lambda>q. Inr [1]),
       search_content_by_embedding =
         (\<lambda>tr q k th. if th = 0.25 then Inr [] else Inr [sample_item_utc, sample_item]),
       chat_completion =
         (\<lambda>tr req. case req of
            InsightRequest w ts g c \<Rightarrow> Inr (lit ''<think>x</think> Read it. '')
          | ScoreRequest ts c \<Rightarrow>
              Inr (if c = lit ''Attention is all you need'' then lit '' 0.8'' else lit ''high'')
          | SummaryRequest w ts n \<Rightarrow> Inr (lit ''Go on.'')),
       store_daily_insight = (\<lambda>tr t c r w. Inr ()),
       float_of_str = (\<lambda>s. if s = lit ''0.8'' then Some (Finite 0.8) else None),
       fromisoformat =
         (\<lambda>s. if s = lit ''2024-01-01T00:00:00'' then Some (Naive 0)
              else if s = lit ''2024-01-01T00:00:00+00:00'' then Some (Aware 0 0)
              else None),
       utcnow = (\<lambda>tr. 3 * 86400000000) \<rparr>"

section \<open>Splitting at a marker\<close>









lemma think_close_code: "think_close = [60,47,116,104,105,110,107,62]"
  by (simp add: think_close_def lit_def)
lemma think_open_code: "think_open = [60,116,104,105,110,107,62]"
  by (simp add: think_open_def lit_def)

lemmas str_eval = extract_final_output_def py_in_def think_close_code think_open_code
  py_split.simps py_strip_def py_isspace_def lit_def sublist_Cons_right


section \<open>Ranges of the scores\<close>

lemma py_round_bounds:
  assumes lo: "of_int a \<le> x * 10 ^ nd" and hi: "x * 10 ^ nd \<le> of_int b"
  shows "of_int a / 10 ^ nd \<le> py_round x nd \<and> py_round x nd \<le> of_int b / 10 ^ nd"
proof -
  define y where "y = x * 10 ^ nd"
  define f where "f = \<lfloor>y\<rfloor>"
  define n where "n = (if y - of_int f < 1 / 2 then f else if 1 / 2 < y - of_int f then f + 1
               else if even f then f else f + 1)"
  have r: "py_round x nd = of_int n / 10 ^ nd"
    by (simp add: py_round_def Let_def y_def f_def n_def)
  from lo have af: "a \<le> f" unfolding f_def y_def by (simp add: le_floor_iff)
  from hi have fb: "f \<le> b" unfolding f_def y_def by (simp add: floor_le_iff)
  have "a \<le> n" using af by (simp add: n_def)
  moreover have "n \<le> b"
  proof (cases "f = b")
    case True
    with hi have "y - of_int f \<le> 0" by (simp add: y_def)
    then show ?thesis using True by (simp add: n_def)
  next
    case False
    with fb have "f + 1 \<le> b" by simp
    then show ?thesis by (simp add: n_def)
  qed
  ultimately have "(of_int a :: real) \<le> of_int n" "(of_int n :: real) \<le> of_int b" by simp_all
  then show ?thesis unfolding r by (simp add: divide_right_mono)
qed

lemma py_round3_unit:
  assumes "0 \<le> x" "x \<le> 1"
  shows "0 \<le> py_round x 3 \<and> py_round x 3 \<le> 1"
  using py_round_bounds [of 0 x 3 1000] assms by simp

lemma clamp_unit_range: "0 \<le> clamp_unit v \<and> clamp_unit v \<le> 1"
  by (cases v) simp_all

lemma calculate_freshness_range:
  "0 \<le> calculate_freshness parse now p \<and> calculate_freshness parse now p \<le> 1"
  by (simp add: calculate_freshness_def Let_def split: option.split sum.split)

lemma score_content_relevance_range:
  "score_content_relevance sv tr body ts = (Inr t, tr') \<Longrightarrow> 0 \<le> t \<and> t \<le> 1"
  using clamp_unit_range
  by (auto simp: score_content_relevance_def Let_def split: sum.splits option.splits)

lemma fusion_unit:
  fixes s t f :: real
  assumes "0 \<le> s" "s \<le> 1" "0 \<le> t" "t \<le> 1" "0 \<le> f" "f \<le> 1"
  shows "0 \<le> py_round (0.4 * s + 0.4 * t + 0.2 * f) 3 \<and>
         py_round (0.4 * s + 0.4 * t + 0.2 * f) 3 \<le> 1"
proof (rule py_round3_unit)
  show "0 \<le> 0.4 * s + 0.4 * t + 0.2 * f" using assms by simp
  show "0.4 * s + 0.4 * t + 0.2 * f \<le> 1" using assms by simp
qed


section \<open>Evaluating the sample run\<close>

lemmas sample_eval =
  sample_item_def sample_item_utc_def sample_context_def sample_services_def
  calculate_relevance_score_def score_content_relevance_def generate_insight_def
  generate_daily_digest_summary_def insight_of_item_def item_published_def dict_get_def
  calculate_freshness_def timedelta_days_def py_round_def py_prefix_def py_replace_def
  py_slice_to_def py_sort_reverse_def generate_insights_from_content_def
  retrieve_relevant_content_def generate_daily_digest_def tool_generate_daily_digest_def
  user_context_of_def msg_no_content_def msg_only_thinking_def msg_incomplete_def
  Let_def str_eval

section \<open>Freshness of timestamps without a zone\<close>

lemma calculate_freshness_missing: "calculate_freshness parse now [] = 0.5"
  by (simp add: calculate_freshness_def)

lemma calculate_freshness_unparsed:
  "parse (py_replace (lit ''Z'') (lit ''+00:00'') published) = None \<Longrightarrow>
   calculate_freshness parse now published = 0.5"
  by (simp add: calculate_freshness_def)

lemma calculate_freshness_naive:
  assumes "published \<noteq> []"
    and "parse (py_replace (lit ''Z'') (lit ''+00:00'') published) = Some (Naive t)"
  shows "calculate_freshness parse now published =
           (if timedelta_days (now - t) \<le> 0 then 1.0
            else if timedelta_days (now - t) \<le> 7 then 0.9
            else if timedelta_days (now - t) \<le> 30 then 0.7
            else if timedelta_days (now - t) \<le> 90 then 0.4
            else 0.2)"
  using assms by (simp add: calculate_freshness_def Let_def)

lemma calculate_freshness_naive_mono:
  assumes "p1 \<noteq> []" "parse (py_replace (lit ''Z'') (lit ''+00:00'') p1) = Some (Naive t1)"
    and "p2 \<noteq> []" "parse (py_replace (lit ''Z'') (lit ''+00:00'') p2) = Some (Naive t2)"
    and "timedelta_days (now - t1) \<le> timedelta_days (now - t2)"
  shows "calculate_freshness parse now p2 \<le> calculate_freshness parse now p1"
  using assms by (simp add: calculate_freshness_naive)

section \<open>The digest\<close>

lemma retrieve_no_topics:
  "py_join (lit '' '') (current_topics ctx) = [] \<Longrightarrow>
   retrieve_relevant_content sv tr ctx top_k = (Inr [], tr)"
  by (simp add: retrieve_relevant_content_def)

lemma generate_daily_digest_nothing:
  assumes "get_user_progress sv = Inr (Some progress)"
    and "retrieve_relevant_content sv tr (user_context_of progress) (n * 2) = (Inr [], tr1)"
  shows "generate_daily_digest sv tr n =
           (Inr \<lparr> date = utcnow sv tr1, week = None, topics = None, summary = msg_no_content,
                   insights = [], total_insights = None \<rparr>, tr1)"
  using assms by (simp add: generate_daily_digest_def)

lemma generate_daily_digest_Inr:
  assumes "generate_daily_digest sv tr n = (Inr d, tr')"
  shows "\<exists>progress relevant tr1.
           get_user_progress sv = Inr (Some progress) \<and>
           retrieve_relevant_content sv tr (user_context_of progress) (n * 2) =
             (Inr relevant, tr1) \<and>
           insights d =
             (if relevant = [] then []
              else fst (generate_insights_from_content sv tr1 relevant
                          (user_context_of progress) n))"
proof (cases "get_user_progress sv")
  case (Inl e)
  with assms show ?thesis by (simp add: generate_daily_digest_def)
next
  case (Inr p)
  show ?thesis
  proof (cases p)
    case None
    with Inr assms show ?thesis by (simp add: generate_daily_digest_def)
  next
    case (Some progress)
    let ?ctx = "user_context_of progress"
    obtain res tr1 where ret: "retrieve_relevant_content sv tr ?ctx (n * 2) = (res, tr1)"
      by (cases "retrieve_relevant_content sv tr ?ctx (n * 2)")
    show ?thesis
    proof (cases res)
      case (Inl e)
      with Inr Some ret assms show ?thesis by (simp add: generate_daily_digest_def)
    next
      case res: (Inr relevant)
      show ?thesis
      proof (cases "relevant = []")
        case True
        with Inr Some ret res assms have "insights d = []"
          by (auto simp: generate_daily_digest_def)
        with Inr Some ret res True show ?thesis by simp
      next
        case False
        obtain found tr2 where
          gen: "generate_insights_from_content sv tr1 relevant ?ctx n = (found, tr2)"
          by (cases "generate_insights_from_content sv tr1 relevant ?ctx n")
        with Inr Some ret res False assms have "insights d = found"
          by (auto simp: generate_daily_digest_def Let_def split: sum.splits prod.splits)
        with Inr Some ret res False gen show ?thesis by simp
      qed
    qed
  qed
qed

subsection \<open>Sorting\<close>

lemma py_sort_reverse_sorted:
  "sorted_wrt (\<lambda>a b. k b \<le> k a) (py_sort_reverse k xs)"
proof -
  have "sorted (map k (sort_key k (rev xs)))" by (rule sorted_sort_key)
  then have "sorted_wrt (\<lambda>a b. k a \<le> k b) (sort_key k (rev xs))"
    by (simp add: sorted_wrt_map)
  then show ?thesis by (simp add: py_sort_reverse_def sorted_wrt_rev)
qed

lemma py_sort_reverse_stable:
  "filter (\<lambda>x. k x = v) (py_sort_reverse k xs) = filter (\<lambda>x. k x = v) xs"
  by (simp add: py_sort_reverse_def rev_filter [symmetric] sort_key_stable)

lemma length_py_sort_reverse: "length (py_sort_reverse k xs) = length xs"
  by (simp add: py_sort_reverse_def)

subsection \<open>The loop over the candidates\<close>

lemma length_item_outcomes: "length (item_outcomes sv ctx tr its) = length its"
  by (induction its arbitrary: tr) (simp_all split: prod.split)

lemma insights_loop_outcomes:
  "fst (insights_loop sv ctx tr its) =
     map projr (filter (\<lambda>r. \<not> isl r) (item_outcomes sv ctx tr its))"
proof (induction its arbitrary: tr)
  case Nil
  show ?case by simp
next
  case (Cons it its)
  obtain r tr' where step: "insight_of_item sv ctx tr it = (r, tr')"
    by (cases "insight_of_item sv ctx tr it")
  show ?case
  proof (cases r)
    case (Inl e)
    with step Cons.IH [of tr'] show ?thesis by simp
  next
    case (Inr ins)
    with step Cons.IH [of tr'] show ?thesis
      by (cases "insights_loop sv ctx tr' its") simp
  qed
qed

lemma length_insights_loop: "length (fst (insights_loop sv ctx tr its)) \<le> length its"
proof -
  have "length (fst (insights_loop sv ctx tr its)) \<le> length (item_outcomes sv ctx tr its)"
    by (simp add: insights_loop_outcomes)
  then show ?thesis by (simp add: length_item_outcomes)
qed

lemma insights_loop_empty_iff:
  "fst (insights_loop sv ctx tr its) = [] \<longleftrightarrow>
     (\<forall>r \<in> set (item_outcomes sv ctx tr its). isl r)"
  by (simp add: insights_loop_outcomes filter_empty_conv)

lemma insights_loop_ids:
  "subseq (map content_id (fst (insights_loop sv ctx tr its))) (map item_id its)"
proof (induction its arbitrary: tr)
  case Nil
  show ?case by simp
next
  case (Cons it its)
  obtain r tr' where step: "insight_of_item sv ctx tr it = (r, tr')"
    by (cases "insight_of_item sv ctx tr it")
  show ?case
  proof (cases r)
    case (Inl e)
    with step Cons.IH [of tr'] show ?thesis by (auto intro: list_emb_Cons)
  next
    case (Inr ins)
    with step have "content_id ins = item_id it"
      by (auto simp: insight_of_item_def split: option.splits sum.splits prod.splits)
    with Inr step Cons.IH [of tr'] show ?thesis
      by (cases "insights_loop sv ctx tr' its") simp
  qed
qed

lemma fst_generate_insights_from_content:
  "fst (generate_insights_from_content sv tr items ctx n) =
     py_sort_reverse relevance_score (fst (insights_loop sv ctx tr (py_slice_to n items)))"
  by (simp add: generate_insights_from_content_def split: prod.split)

lemma length_py_slice_to: "0 \<le> n \<Longrightarrow> int (length (py_slice_to n xs)) \<le> n"
  by (simp add: py_slice_to_def)

lemma py_sort_reverse_Nil_iff: "py_sort_reverse k xs = [] \<longleftrightarrow> xs = []"
  using length_py_sort_reverse [of k xs] by (metis length_0_conv)

section \<open>Claims\<close>



text \<open>
  C6. For every reply of the topic-relevance call: when the reply, trimmed, parses as a
  number the signal is that number clamped into [0,1]; when parsing fails the signal is
  0.5, nothing is raised, and the scorer returns a score, which lies in [0,1] for a
  candidate whose similarity does.
\<close>

theorem score_content_relevance_parse:
  assumes "chat_completion sv tr (ScoreRequest (current_topics ctx) (py_prefix 500 body)) =
             Inr reply"
  shows "(\<forall>x. float_of_str sv (py_strip reply) = Some (Finite x) \<longrightarrow>
            score_content_relevance sv tr body (current_topics ctx) =
              (Inr (max 0 (min 1 x)),
               tr @ [Chat (ScoreRequest (current_topics ctx) (py_prefix 500 body))])) \<and>
         (float_of_str sv (py_strip reply) = None \<longrightarrow>
            score_content_relevance sv tr body (current_topics ctx) =
              (Inr 0.5, tr @ [Chat (ScoreRequest (current_topics ctx) (py_prefix 500 body))]) \<and>
            (\<forall>it. content it = Some body \<longrightarrow>
               (\<exists>r. calculate_relevance_score sv tr it ctx =
                      (Inr r, tr @ [Chat (ScoreRequest (current_topics ctx)
                                            (py_prefix 500 body))]) \<and>
                    (0 \<le> (case similarity it of None \<Rightarrow> 0.5 | Some x \<Rightarrow> x) \<and>
                     (case similarity it of None \<Rightarrow> 0.5 | Some x \<Rightarrow> x) \<le> 1 \<longrightarrow>
                       0 \<le> r \<and> r \<le> 1))))"
proof (intro conjI allI impI)
  fix x
  assume "float_of_str sv (py_strip reply) = Some (Finite x)"
  with assms show "score_content_relevance sv tr body (current_topics ctx) =
      (Inr (max 0 (min 1 x)), tr @ [Chat (ScoreRequest (current_topics ctx) (py_prefix 500 body))])"
    by (simp add: score_content_relevance_def Let_def)
next
  assume "float_of_str sv (py_strip reply) = None"
  with assms show "score_content_relevance sv tr body (current_topics ctx) =
      (Inr 0.5, tr @ [Chat (ScoreRequest (current_topics ctx) (py_prefix 500 body))])"
    by (simp add: score_content_relevance_def Let_def)
next
  fix it :: item
  let ?sim = "case similarity it of None \<Rightarrow> 0.5 | Some x \<Rightarrow> x"
  let ?tr' = "tr @ [Chat (ScoreRequest (current_topics ctx) (py_prefix 500 body))]"
  let ?fresh = "calculate_freshness (fromisoformat sv) (utcnow sv ?tr') (item_published it)"
  assume none: "float_of_str sv (py_strip reply) = None" and body: "content it = Some body"
  from assms none
  have "score_content_relevance sv tr (py_prefix 500 body) (current_topics ctx) =
      (Inr 0.5, ?tr')"
    by (simp add: score_content_relevance_def Let_def py_prefix_def)
  with body have run: "calculate_relevance_score sv tr it ctx =
      (Inr (py_round (0.4 * ?sim + 0.4 * 0.5 + 0.2 * ?fresh) 3), ?tr')"
    by (simp add: calculate_relevance_score_def Let_def)
  have "0 \<le> ?fresh \<and> ?fresh \<le> 1" by (rule calculate_freshness_range)
  then have "0 \<le> ?sim \<and> ?sim \<le> 1 \<longrightarrow>
      0 \<le> py_round (0.4 * ?sim + 0.4 * 0.5 + 0.2 * ?fresh) 3 \<and>
      py_round (0.4 * ?sim + 0.4 * 0.5 + 0.2 * ?fresh) 3 \<le> 1"
    using fusion_unit [of ?sim "0.5" ?fresh] by simp
  with run show "\<exists>r. calculate_relevance_score sv tr it ctx = (Inr r, ?tr') \<and>
      (0 \<le> ?sim \<and> ?sim \<le> 1 \<longrightarrow> 0 \<le> r \<and> r \<le> 1)"
    by blast
qed

theorem score_content_relevance_parse_witness:
  "chat_completion sample_services []
      (ScoreRequest (current_topics sample_context)
         (py_prefix 500 (lit ''Attention is all you need''))) = Inr (lit '' 0.8'') \<and>
   float_of_str sample_services (py_strip (lit '' 0.8'')) = Some (Finite 0.8) \<and>
   fst (score_content_relevance sample_services [] (lit ''Attention is all you need'')
          (current_topics sample_context)) = Inr 0.8 \<and>
   chat_completion sample_services []
      (ScoreRequest (current_topics sample_context) (py_prefix 500 (lit ''Transformers''))) =
     Inr (lit ''high'') \<and>
   float_of_str sample_services (py_strip (lit ''high'')) = None \<and>
   fst (score_content_relevance sample_services [] (lit ''Transformers'')
          (current_topics sample_context)) = Inr 0.5 \<and>
   fst (calculate_relevance_score sample_services [] sample_item_utc sample_context) = Inr 0.66"
proof -
  have a: "chat_completion sample_services []
      (ScoreRequest (current_topics sample_context)
         (py_prefix 500 (lit ''Attention is all you need''))) = Inr (lit '' 0.8'')"
    and a': "float_of_str sample_services (py_strip (lit '' 0.8'')) = Some (Finite 0.8)"
    and b: "chat_completion sample_services []
      (ScoreRequest (current_topics sample_context) (py_prefix 500 (lit ''Transformers''))) =
      Inr (lit ''high'')"
    and b': "float_of_str sample_services (py_strip (lit ''high'')) = None"
    and c: "content sample_item_utc = Some (lit ''Transformers'')"
    by (simp_all add: sample_eval)
  from score_content_relevance_parse [OF a, THEN conjunct1, rule_format, OF a']
  have 1: "fst (score_content_relevance sample_services [] (lit ''Attention is all you need'')
          (current_topics sample_context)) = Inr 0.8"
    by simp
  from score_content_relevance_parse [OF b, THEN conjunct2, rule_format, OF b']
  have 2: "fst (score_content_relevance sample_services [] (lit ''Transformers'')
          (current_topics sample_context)) = Inr 0.5"
    by simp
  have 3: "fst (calculate_relevance_score sample_services [] sample_item_utc sample_context) =
      Inr 0.66"
    by (simp add: sample_eval)
  from a a' 1 b b' 2 3 show ?thesis by blast
qed

text \<open>
  C5. The freshness of a timestamp that carries a UTC offset, such as one ending in
  \<open>Z\<close>: it is parsed, the subtraction from the naive clock reading raises
  \<open>TypeError\<close>, and the result is 0.5 whatever the age of the document.
\<close>

theorem calculate_freshness_aware:
  assumes "published \<noteq> []"
    and "parse (py_replace (lit ''Z'') (lit ''+00:00'') published) = Some (Aware t off)"
  shows "calculate_freshness parse now published = 0.5"
  using assms by (simp add: calculate_freshness_def)

theorem calculate_freshness_aware_witness:
  "lit ''2024-01-01T00:00:00Z'' \<noteq> [] \<and>
   fromisoformat sample_services
     (py_replace (lit ''Z'') (lit ''+00:00'') (lit ''2024-01-01T00:00:00Z'')) = Some (Aware 0 0) \<and>
   calculate_freshness (fromisoformat sample_services) (3 * 86400000000)
     (lit ''2024-01-01T00:00:00Z'') = 0.5 \<and>
   calculate_freshness (fromisoformat sample_services) 0 (lit ''2024-01-01T00:00:00Z'') = 0.5 \<and>
   calculate_freshness (fromisoformat sample_services) (3 * 86400000000)
     (lit ''2024-01-01T00:00:00'') = 0.9"
proof -
  have ne: "lit ''2024-01-01T00:00:00Z'' \<noteq> []" by (simp add: lit_def)
  have parsed: "fromisoformat sample_services
     (py_replace (lit ''Z'') (lit ''+00:00'') (lit ''2024-01-01T00:00:00Z'')) = Some (Aware 0 0)"
    by (simp add: sample_eval)
  have naive: "calculate_freshness (fromisoformat sample_services) (3 * 86400000000)
     (lit ''2024-01-01T00:00:00'') = 0.9"
    by (simp add: sample_eval)
  from ne parsed naive
    calculate_freshness_aware [where parse = "fromisoformat sample_services"
      and now = "3 * 86400000000", OF ne parsed]
    calculate_freshness_aware [where parse = "fromisoformat sample_services"
      and now = 0, OF ne parsed]
  show ?thesis by blast
qed



text \<open>
  C2. For a learner context whose query text is not empty and whose query vector is
  \<open>q\<close>: the retriever first searches with threshold 0.25 and the requested limit; it
  searches once more, with threshold 0.15 and the same limit, exactly when the first
  search returned an empty list, and it makes no other search. Its result is the result
  of the last search made.
\<close>

theorem retrieve_search_calls:
  assumes "py_join (lit '' '') (current_topics ctx) \<noteq> []"
    and "encode sv (py_join (lit '' '') (current_topics ctx)) = Inr q"
  shows "snd (retrieve_relevant_content sv tr ctx top_k) =
           tr @ Search q top_k 0.25 #
             (if search_content_by_embedding sv tr q top_k 0.25 = Inr []
              then [Search q top_k 0.15] else []) \<and>
         fst (retrieve_relevant_content sv tr ctx top_k) =
           (if search_content_by_embedding sv tr q top_k 0.25 = Inr []
            then search_content_by_embedding sv (tr @ [Search q top_k 0.25]) q top_k 0.15
            else search_content_by_embedding sv tr q top_k 0.25)"
proof (cases "search_content_by_embedding sv tr q top_k 0.25")
  case (Inl e)
  with assms show ?thesis by (simp add: retrieve_relevant_content_def Let_def)
next
  case (Inr found)
  show ?thesis
  proof (cases "found = []")
    case True
    with Inr assms show ?thesis
      by (simp add: retrieve_relevant_content_def Let_def split: sum.split)
  next
    case False
    with Inr assms show ?thesis by (simp add: retrieve_relevant_content_def Let_def)
  qed
qed

theorem retrieve_search_calls_witness:
  "py_join (lit '' '') (current_topics sample_context) \<noteq> [] \<and>
   encode sample_services (py_join (lit '' '') (current_topics sample_context)) = Inr [1] \<and>
   search_content_by_embedding sample_services [] [1] 4 0.25 = Inr [] \<and>
   retrieve_relevant_content sample_services [] sample_context 4 =
     (Inr [sample_item_utc, sample_item], [Search [1] 4 0.25, Search [1] 4 0.15]) \<and>
   retrieve_relevant_content
     (sample_services\<lparr>search_content_by_embedding := \<lambda>tr q k th. Inr [sample_item]\<rparr>)
     [] sample_context 4 = (Inr [sample_item], [Search [1] 4 0.25])"
proof -
  let ?sv = "sample_services\<lparr>search_content_by_embedding := \<lambda>tr q k th. Inr [sample_item]\<rparr>"
  have q: "py_join (lit '' '') (current_topics sample_context) \<noteq> []"
    by (simp add: sample_context_def lit_def)
  have e: "encode sample_services (py_join (lit '' '') (current_topics sample_context)) = Inr [1]"
    and e': "encode ?sv (py_join (lit '' '') (current_topics sample_context)) = Inr [1]"
    by (simp_all add: sample_services_def)
  have p: "search_content_by_embedding sample_services [] [1] 4 0.25 = Inr []"
    and r: "search_content_by_embedding sample_services [Search [1] 4 0.25] [1] 4 0.15 =
      Inr [sample_item_utc, sample_item]"
    and p': "search_content_by_embedding ?sv [] [1] 4 0.25 = Inr [sample_item]"
    by (simp_all add: sample_services_def)
  from retrieve_search_calls [OF q e, of "[]" 4] p r
  have 1: "retrieve_relevant_content sample_services [] sample_context 4 =
     (Inr [sample_item_utc, sample_item], [Search [1] 4 0.25, Search [1] 4 0.15])"
    by (simp add: prod_eq_iff)
  from retrieve_search_calls [OF q e', of "[]" 4] p'
  have 2: "retrieve_relevant_content ?sv [] sample_context 4 =
     (Inr [sample_item], [Search [1] 4 0.25])"
    by (simp add: prod_eq_iff)
  from q e p 1 2 show ?thesis by blast
qed

text \<open>
  C7. For a learner whose space-joined topics are the empty string, retrieval returns
  the empty list and the log of external calls is unchanged, so no search was issued;
  the digest build returns the digest with no insight, and the tool reports success.
\<close>

theorem empty_topics_digest:
  assumes "get_user_progress sv = Inr (Some progress)"
    and "py_join (lit '' '') (row_topics progress) = []"
  shows "retrieve_relevant_content sv tr (user_context_of progress) (n * 2) = (Inr [], tr) \<and>
         (\<exists>d. generate_daily_digest sv tr n = (Inr d, tr) \<and> insights d = [] \<and>
              tool_generate_daily_digest sv tr n = (Success d, tr))"
proof -
  from assms(2) have "py_join (lit '' '') (current_topics (user_context_of progress)) = []"
    by (simp add: user_context_of_def)
  then have ret: "retrieve_relevant_content sv tr (user_context_of progress) (n * 2) =
      (Inr [], tr)"
    by (rule retrieve_no_topics)
  from generate_daily_digest_nothing [OF assms(1) ret] ret show ?thesis
    by (simp add: tool_generate_daily_digest_def)
qed

theorem empty_topics_digest_witness:
  "get_user_progress
     (sample_services\<lparr>get_user_progress :=
        Inr (Some \<lparr> row_week = 1, row_topics = [[]], row_goals = None \<rparr>)\<rparr>) =
     Inr (Some \<lparr> row_week = 1, row_topics = [[]], row_goals = None \<rparr>) \<and>
   py_join (lit '' '') (row_topics \<lparr> row_week = 1, row_topics = [[]], row_goals = None \<rparr>) = [] \<and>
   snd (generate_daily_digest
     (sample_services\<lparr>get_user_progress :=
        Inr (Some \<lparr> row_week = 1, row_topics = [[]], row_goals = None \<rparr>)\<rparr>) [] 7) = [] \<and>
   map_sum id insights (fst (generate_daily_digest
     (sample_services\<lparr>get_user_progress :=
        Inr (Some \<lparr> row_week = 1, row_topics = [[]], row_goals = None \<rparr>)\<rparr>) [] 7)) = Inr []"
proof -
  let ?p = "\<lparr> row_week = 1, row_topics = [[]], row_goals = None \<rparr>"
  let ?sv = "sample_services\<lparr>get_user_progress := Inr (Some ?p)\<rparr>"
  have a: "get_user_progress ?sv = Inr (Some ?p)" by simp
  have b: "py_join (lit '' '') (row_topics ?p) = []" by simp
  from empty_topics_digest [OF a b, of "[]" 7]
  obtain d where "generate_daily_digest ?sv [] 7 = (Inr d, [])" "insights d = []" by blast
  with a b show ?thesis by simp
qed

text \<open>
  C9. When retrieval, after its searches, yields no candidate, the digest build returns
  a digest whose insight list is empty and whose summary is the fixed, non-empty text
  "No relevant content found for your topics today."; the tool reports it as a success.
\<close>

theorem no_candidates_digest:
  assumes "get_user_progress sv = Inr (Some progress)"
    and "retrieve_relevant_content sv tr (user_context_of progress) (n * 2) = (Inr [], tr1)"
  shows "(\<exists>d. generate_daily_digest sv tr n = (Inr d, tr1) \<and>
              tool_generate_daily_digest sv tr n = (Success d, tr1) \<and>
              insights d = [] \<and>
              summary d = lit ''No relevant content found for your topics today.'' \<and>
              summary d \<noteq> [])"
proof -
  have "lit ''No relevant content found for your topics today.'' \<noteq> []"
    by (simp add: lit_def)
  with generate_daily_digest_nothing [OF assms] show ?thesis
    by (simp add: tool_generate_daily_digest_def msg_no_content_def)
qed

theorem no_candidates_digest_witness:
  "get_user_progress (sample_services\<lparr>search_content_by_embedding := \<lambda>tr q k th. Inr []\<rparr>) =
     Inr (Some \<lparr> row_week = 3, row_topics = [lit ''transformers'', lit ''attention''],
                 row_goals = None \<rparr>) \<and>
   retrieve_relevant_content
     (sample_services\<lparr>search_content_by_embedding := \<lambda>tr q k th. Inr []\<rparr>) []
     (user_context_of \<lparr> row_week = 3, row_topics = [lit ''transformers'', lit ''attention''],
                 row_goals = None \<rparr>) (7 * 2) =
     (Inr [], [Search [1] 14 0.25, Search [1] 14 0.15]) \<and>
   tool_generate_daily_digest
     (sample_services\<lparr>search_content_by_embedding := \<lambda>tr q k th. Inr []\<rparr>) [] 7 =
     (Success \<lparr> date = 3 * 86400000000, week = None, topics = None,
                summary = lit ''No relevant content found for your topics today.'',
                insights = [], total_insights = None \<rparr>,
      [Search [1] 14 0.25, Search [1] 14 0.15])"
proof -
  let ?sv = "sample_services\<lparr>search_content_by_embedding := \<lambda>tr q k th. Inr []\<rparr>"
  let ?p = "\<lparr> row_week = 3, row_topics = [lit ''transformers'', lit ''attention''],
                 row_goals = None \<rparr>"
  let ?tr = "[Search [1] 14 0.25, Search [1] 14 0.15]"
  have a: "get_user_progress ?sv = Inr (Some ?p)" by (simp add: sample_services_def)
  have b: "retrieve_relevant_content ?sv [] (user_context_of ?p) (7 * 2) = (Inr [], ?tr)"
    by (simp add: sample_eval)
  have now: "utcnow ?sv ?tr = 3 * 86400000000" by (simp add: sample_services_def)
  from no_candidates_digest [OF a b] obtain d where
    d: "tool_generate_daily_digest ?sv [] 7 = (Success d, ?tr)"
      "generate_daily_digest ?sv [] 7 = (Inr d, ?tr)"
    by blast
  from d(2) generate_daily_digest_nothing [OF a b] now
  have "d = \<lparr> date = 3 * 86400000000, week = None, topics = None,
                summary = lit ''No relevant content found for your topics today.'',
                insights = [], total_insights = None \<rparr>"
    by (simp add: msg_no_content_def)
  with a b d(1) show ?thesis by simp
qed

text \<open>
  C8. The insights returned by the insight generator are sorted by relevance score in
  descending order, and the insights of one score stand in the order in which the loop
  over the retrieved candidates produced them; the insight list of every digest is sorted
  in descending order of relevance score.
\<close>

theorem insights_sorted_stable:
  "sorted_wrt (\<lambda>a b. relevance_score b \<le> relevance_score a)
     (fst (generate_insights_from_content sv tr content_items ctx n)) \<and>
   (\<forall>v. filter (\<lambda>i. relevance_score i = v)
           (fst (generate_insights_from_content sv tr content_items ctx n)) =
         filter (\<lambda>i. relevance_score i = v)
           (fst (insights_loop sv ctx tr (py_slice_to n content_items)))) \<and>
   subseq (map content_id (fst (insights_loop sv ctx tr (py_slice_to n content_items))))
     (map item_id (py_slice_to n content_items)) \<and>
   (\<forall>d tr'. generate_daily_digest sv tr n = (Inr d, tr') \<longrightarrow>
      sorted_wrt (\<lambda>a b. relevance_score b \<le> relevance_score a) (insights d))"
proof (intro conjI allI impI)
  show "sorted_wrt (\<lambda>a b. relevance_score b \<le> relevance_score a)
     (fst (generate_insights_from_content sv tr content_items ctx n))"
    by (simp add: fst_generate_insights_from_content py_sort_reverse_sorted)
next
  fix v
  show "filter (\<lambda>i. relevance_score i = v)
           (fst (generate_insights_from_content sv tr content_items ctx n)) =
         filter (\<lambda>i. relevance_score i = v)
           (fst (insights_loop sv ctx tr (py_slice_to n content_items)))"
    by (simp add: fst_generate_insights_from_content py_sort_reverse_stable)
next
  show "subseq (map content_id (fst (insights_loop sv ctx tr (py_slice_to n content_items))))
     (map item_id (py_slice_to n content_items))"
    by (rule insights_loop_ids)
next
  fix d tr'
  assume "generate_daily_digest sv tr n = (Inr d, tr')"
  from generate_daily_digest_Inr [OF this] obtain progress relevant tr1 where
    "insights d = (if relevant = [] then []
       else fst (generate_insights_from_content sv tr1 relevant (user_context_of progress) n))"
    by blast
  then show "sorted_wrt (\<lambda>a b. relevance_score b \<le> relevance_score a) (insights d)"
    by (simp add: fst_generate_insights_from_content py_sort_reverse_sorted)
qed

theorem insights_sorted_stable_witness:
  "map relevance_score
     (fst (insights_loop sample_services sample_context []
        (py_slice_to 2 [sample_item_utc, sample_item]))) = [0.66, 0.74] \<and>
   map_sum id (map relevance_score \<circ> insights)
     (fst (generate_daily_digest sample_services [] 2)) = Inr [0.74, 0.66] \<and>
   map_sum id (sorted_wrt (\<lambda>a b. relevance_score b \<le> relevance_score a) \<circ> insights)
     (fst (generate_daily_digest sample_services [] 2)) = Inr True"
proof -
  have loop: "map relevance_score
     (fst (insights_loop sample_services sample_context []
        (py_slice_to 2 [sample_item_utc, sample_item]))) = [0.66, 0.74]"
    by (simp add: sample_eval)
  have run: "map_sum id (map relevance_score \<circ> insights)
     (fst (generate_daily_digest sample_services [] 2)) = Inr [0.74, 0.66]"
    by (simp add: sample_eval)
  then obtain d tr' where d: "generate_daily_digest sample_services [] 2 = (Inr d, tr')"
    by (cases "generate_daily_digest sample_services [] 2";
        cases "fst (generate_daily_digest sample_services [] 2)") auto
  from insights_sorted_stable [of sample_services "[]" "[]" sample_context 2] d
  have "sorted_wrt (\<lambda>a b. relevance_score b \<le> relevance_score a) (insights d)"
    by blast
  with d loop run show ?thesis by simp
qed

text \<open>
  C3. A generation service that fails on every insight request leaves the digest
  without insights although retrieval returned two candidates; and with a requested
  maximum of \<open>-1\<close> the slice \<open>content_items[:-1]\<close> keeps one of the two candidates, so
  the digest holds more insights than the requested maximum.
\<close>

theorem digest_insight_count_counterexample:
  "fst (retrieve_relevant_content
          (sample_services\<lparr>chat_completion := \<lambda>tr req. case req of
               SummaryRequest w ts k \<Rightarrow> Inr (lit ''Go on.'')
             | _ \<Rightarrow> Inl (ServiceError (lit ''timeout''))\<rparr>)
          [] sample_context (2 * 2)) = Inr [sample_item_utc, sample_item] \<and>
   map_sum id insights
     (fst (generate_daily_digest
          (sample_services\<lparr>chat_completion := \<lambda>tr req. case req of
               SummaryRequest w ts k \<Rightarrow> Inr (lit ''Go on.'')
             | _ \<Rightarrow> Inl (ServiceError (lit ''timeout''))\<rparr>)
          [] 2)) = Inr [] \<and>
   map_sum id (\<lambda>d. int (length (insights d)))
     (fst (generate_daily_digest sample_services [] (- 1))) = Inr 1"
proof (intro conjI)
  show "fst (retrieve_relevant_content
          (sample_services\<lparr>chat_completion := \<lambda>tr req. case req of
               SummaryRequest w ts k \<Rightarrow> Inr (lit ''Go on.'')
             | _ \<Rightarrow> Inl (ServiceError (lit ''timeout''))\<rparr>)
          [] sample_context (2 * 2)) = Inr [sample_item_utc, sample_item]"
    by (simp add: sample_eval)
  show "map_sum id insights
     (fst (generate_daily_digest
          (sample_services\<lparr>chat_completion := \<lambda>tr req. case req of
               SummaryRequest w ts k \<Rightarrow> Inr (lit ''Go on.'')
             | _ \<Rightarrow> Inl (ServiceError (lit ''timeout''))\<rparr>)
          [] 2)) = Inr []"
    by (simp add: sample_eval)
  show "map_sum id (\<lambda>d. int (length (insights d)))
     (fst (generate_daily_digest sample_services [] (- 1))) = Inr 1"
    by (simp add: sample_eval)
qed

text \<open>
  C3, amended. For every digest build with a requested maximum \<open>n \<ge> 0\<close> that returns
  a digest, the number of insights is at most \<open>n\<close>, and the insight list is empty
  exactly when each of the first \<open>n\<close> retrieved candidates raised during insight
  generation or scoring and was skipped, which holds in particular when retrieval
  yielded no candidate.
\<close>

theorem digest_insight_count:
  assumes "generate_daily_digest sv tr n = (Inr d, tr')" and "0 \<le> n"
  shows "\<exists>progress relevant tr1.
           get_user_progress sv = Inr (Some progress) \<and>
           retrieve_relevant_content sv tr (user_context_of progress) (n * 2) =
             (Inr relevant, tr1) \<and>
           int (length (insights d)) \<le> n \<and>
           (insights d = [] \<longleftrightarrow>
              (\<forall>r \<in> set (item_outcomes sv (user_context_of progress) tr1
                              (py_slice_to n relevant)). isl r))"
proof -
  from generate_daily_digest_Inr [OF assms(1)] obtain progress relevant tr1 where
    p: "get_user_progress sv = Inr (Some progress)"
    and r: "retrieve_relevant_content sv tr (user_context_of progress) (n * 2) =
      (Inr relevant, tr1)"
    and i: "insights d = (if relevant = [] then []
       else fst (generate_insights_from_content sv tr1 relevant (user_context_of progress) n))"
    by blast
  let ?ctx = "user_context_of progress"
  let ?loop = "fst (insights_loop sv ?ctx tr1 (py_slice_to n relevant))"
  have slice_Nil: "py_slice_to n [] = ([] :: item list)" by (simp add: py_slice_to_def)
  have eq: "insights d = py_sort_reverse relevance_score ?loop"
  proof (cases "relevant = []")
    case True
    with i slice_Nil show ?thesis by (simp add: py_sort_reverse_def)
  next
    case False
    with i show ?thesis by (simp add: fst_generate_insights_from_content)
  qed
  have "length (insights d) \<le> length (py_slice_to n relevant)"
    unfolding eq by (simp add: length_py_sort_reverse length_insights_loop)
  with length_py_slice_to [OF assms(2), of relevant]
  have len: "int (length (insights d)) \<le> n" by linarith
  have "insights d = [] \<longleftrightarrow>
      (\<forall>r \<in> set (item_outcomes sv ?ctx tr1 (py_slice_to n relevant)). isl r)"
    unfolding eq by (simp add: py_sort_reverse_Nil_iff insights_loop_empty_iff)
  with p r len show ?thesis by blast
qed

theorem digest_insight_count_witness:
  "map_sum id (\<lambda>d. int (length (insights d)))
     (fst (generate_daily_digest sample_services [] 1)) = Inr 1 \<and>
   (0::int) \<le> 1 \<and>
   retrieve_relevant_content sample_services []
     (user_context_of \<lparr> row_week = 3, row_topics = [lit ''transformers'', lit ''attention''],
                        row_goals = None \<rparr>) (1 * 2) =
     (Inr [sample_item_utc, sample_item], [Search [1] 2 0.25, Search [1] 2 0.15]) \<and>
   map isl (item_outcomes sample_services
     (user_context_of \<lparr> row_week = 3, row_topics = [lit ''transformers'', lit ''attention''],
                        row_goals = None \<rparr>)
     [Search [1] 2 0.25, Search [1] 2 0.15]
     (py_slice_to 1 [sample_item_utc, sample_item])) = [False]"
proof -
  let ?p = "\<lparr> row_week = 3, row_topics = [lit ''transformers'', lit ''attention''],
                        row_goals = None \<rparr>"
  let ?tr = "[Search [1] 2 0.25, Search [1] 2 0.15]"
  have run: "map_sum id (\<lambda>d. int (length (insights d)))
     (fst (generate_daily_digest sample_services [] 1)) = Inr 1"
    by (simp add: sample_eval)
  then obtain d tr' where d: "generate_daily_digest sample_services [] 1 = (Inr d, tr')"
    by (cases "generate_daily_digest sample_services [] 1";
        cases "fst (generate_daily_digest sample_services [] 1)") auto
  with run have ne: "insights d \<noteq> []" by auto
  have ret: "retrieve_relevant_content sample_services [] (user_context_of ?p) (1 * 2) =
      (Inr [sample_item_utc, sample_item], ?tr)"
    by (simp add: sample_eval)
  have prog: "get_user_progress sample_services = Inr (Some ?p)"
    by (simp add: sample_services_def)
  from digest_insight_count [OF d] prog ret ne
  have "\<not> (\<forall>r \<in> set (item_outcomes sample_services (user_context_of ?p) ?tr
      (py_slice_to 1 [sample_item_utc, sample_item])). isl r)"
    by auto
  then have "map isl (item_outcomes sample_services (user_context_of ?p) ?tr
      (py_slice_to 1 [sample_item_utc, sample_item])) = [False]"
    by (auto simp: py_slice_to_def split: prod.splits)
  with run ret show ?thesis by simp
qed

end
